theory Spec2Isabelle
  imports Main
begin

section \<open>Data model of the topology runner\<close>

text \<open>
  The development embeds \<^verbatim>\<open>TopologyRunnerMixin\<close> of
  \<^verbatim>\<open>metadata/ingestion/api/topology_runner.py\<close>.  Python objects are modelled by what
  the runner reads and writes of them.
\<close>

subsection \<open>Values, pydantic models, requests\<close>

text \<open>
  A field of a pydantic object holds \<^verbatim>\<open>None\<close> or a string.  A pydantic object is the
  map from the names of its declared fields to their values: \<^verbatim>\<open>hasattr(obj, f)\<close> is
  \<open>f \<in> dom obj\<close>, \<^verbatim>\<open>obj.__dict__\<close> is the map itself.
\<close>

datatype pyval = PyNone | PyStr string

type_synonym model = "string \<rightharpoonup> pyval"

text \<open>Exceptions that the runner raises or lets through.\<close>

datatype error =
    ValueError
  | AttributeError
  | KeyError
  | TypeError
  | TopologyError
  | MissingExpectedEntityAckException

text \<open>
  The classes that \<^verbatim>\<open>get_fqn_source_hash_dict\<close> tells apart, and any other entity class
  by its name.
\<close>

datatype entity_type = Database | DatabaseSchema | StoredProcedure | EntityClass string

text \<open>
  What the \<^verbatim>\<open>right\<close> of an \<^verbatim>\<open>Either\<close> can hold: a create request (the generic
  \<^verbatim>\<open>C\<close>), the three classes with a registered \<^verbatim>\<open>yield_and_update_context\<close>, and the
  \<^verbatim>\<open>PatchRequest\<close> that the default implementation puts there.  Of a lineage request
  only \<^verbatim>\<open>edge.fromEntity\<close> and \<^verbatim>\<open>edge.toEntity\<close> are kept.
\<close>

datatype request =
    CreateRequest model
  | AddLineageRequest (fromEntity: model) (toEntity: model)
  | OMetaTagAndClassification model
  | OMetaCustomProperties model
  | PatchRequest (original_entity: model) (new_entity: model)

text \<open>\<^verbatim>\<open>Either\<close>: both fields are optional in the class, and the runner tests both.\<close>

record either =
  left :: "string option"
  right :: "request option"

subsection \<open>Stages and nodes\<close>

text \<open>
  \<^verbatim>\<open>NodeStage\<close> and \<^verbatim>\<open>TopologyNode\<close> are declared in
  \<^verbatim>\<open>metadata/ingestion/models/topology.py\<close>; the records hold the attributes that the
  runner reads.  \<open>stage_type\<close> is the attribute \<^verbatim>\<open>stage.type_\<close>, \<open>stage_context\<close>
  the attribute \<^verbatim>\<open>stage.context\<close>.
\<close>

record stage =
  stage_type :: entity_type
  processor :: string
  stage_context :: "string option"
  nullable :: bool
  must_return :: bool
  overwrite :: bool
  cache_entities :: bool
  use_cache :: bool
  clear_context :: bool

record node =
  producer :: string
  stages :: "stage list"
  children :: "string list option"
  post_process :: "string list option"

subsection \<open>Run state\<close>

text \<open>
  A slot of the Run Context holds a name (\<^verbatim>\<open>update_context_name\<close>) or a whole request
  (\<^verbatim>\<open>update_context_value\<close>).
\<close>

datatype ctx_value = CtxName string | CtxValue request

type_synonym topology_context = "string \<rightharpoonup> ctx_value"

datatype remote_call =
    GetByName entity_type string
  | ListAll entity_type "string \<times> string"

datatype warning =
    StageValueError string
  | PostProcessFailed string

text \<open>
  The state that the runner mutates: \<^verbatim>\<open>self.context\<close>, \<^verbatim>\<open>self.cache\<close> (shape
  \<^verbatim>\<open>{type_: {name: hash}}\<close>, a \<^verbatim>\<open>defaultdict(dict)\<close>), the remote calls issued so far
  in order, and the warnings logged so far.  \<open>seen\<close> is a record of the run that the
  code does not keep: for every time a producer, a stage processor or a hook ran, its name
  and the Run Context it found, in order.
\<close>

record run_state =
  run_context :: topology_context
  cache :: "entity_type \<Rightarrow> (string \<rightharpoonup> string)"
  remote_calls :: "remote_call list"
  warnings :: "warning list"
  seen :: "(string \<times> topology_context) list"

subsection \<open>Collaborators\<close>

text \<open>
  \<^verbatim>\<open>self.metadata\<close>.  The remote store may answer the same question differently over
  time (a write becomes visible), so an answer depends on the number of remote calls
  issued before it.
\<close>

record config =
  forceEntityOverwriting :: bool

record open_metadata =
  get_by_name :: "nat \<Rightarrow> entity_type \<Rightarrow> string \<Rightarrow> model option"
  list_all_entities :: "nat \<Rightarrow> entity_type \<Rightarrow> string \<times> string \<Rightarrow> model list"
  metadata_config :: "config option"

text \<open>
  Producers and stage processors are generators that read and write \<^verbatim>\<open>self.context\<close>
  while the runner consumes them: \<^verbatim>\<open>get_tables_name_and_type\<close> of the Unity Catalog
  source sets \<^verbatim>\<open>context.table_data\<close> before each table it yields, and \<^verbatim>\<open>yield_table\<close>
  appends to \<^verbatim>\<open>context.table_views\<close> after its yield.  A generator is modelled by the
  finite list of its resumptions: a resumption finds the Run Context as it is at that
  moment, leaves it as it wrote it, and delivers one item or none (the code that runs
  between two yields, or after the last one).
\<close>

type_synonym 'a step = "topology_context \<Rightarrow> 'a option \<times> topology_context"

text \<open>
  \<^verbatim>\<open>self\<close>: the topology, the client, the methods that \<^verbatim>\<open>getattr\<close> resolves by name
  (a missing attribute is \<open>None\<close>), and two helpers whose code is not among the sources
  and which are therefore parameters: \<^verbatim>\<open>generate_source_hash\<close> and
  \<^verbatim>\<open>TopologyContext.fqn_from_stage\<close>.
  The call of a producer or of a stage processor, under the Run Context at the call,
  gives \<^verbatim>\<open>None\<close> or a generator; a processor may deliver \<^verbatim>\<open>None\<close> items.  A
  post-process hook reads the Run Context, delivers items and may then raise; the hooks
  among the sources (\<^verbatim>\<open>yield_view_lineage\<close>) write nothing to it.
\<close>

record source =
  topology :: "string \<rightharpoonup> node"
  metadata :: open_metadata
  producers :: "string \<rightharpoonup> (topology_context \<Rightarrow> string step list option)"
  processors :: "string \<rightharpoonup> (topology_context \<Rightarrow> string \<Rightarrow> either option step list option)"
  post_processors :: "string \<rightharpoonup> (topology_context \<Rightarrow> either list \<times> error option)"
  generate_source_hash :: "model \<Rightarrow> string"
  fqn_from_stage :: "topology_context \<Rightarrow> stage \<Rightarrow> string \<Rightarrow> string"

subsection \<open>Generators\<close>

text \<open>
  A call of a generator method is modelled by what it yields, the exception that ends it
  (if any) and the state it leaves.
\<close>

record run =
  yielded :: "either list"
  raised :: "error option"
  final :: run_state

definition returns :: "run_state \<Rightarrow> run" where
  "returns s = \<lparr>yielded = [], raised = None, final = s\<rparr>"

definition raises :: "error \<Rightarrow> run_state \<Rightarrow> run" where
  "raises e s = \<lparr>yielded = [], raised = Some e, final = s\<rparr>"

definition yields :: "either \<Rightarrow> run_state \<Rightarrow> run" where
  "yields x s = \<lparr>yielded = [x], raised = None, final = s\<rparr>"

text \<open>\<open>r\<close>, and then, unless \<open>r\<close> raised, the generator \<open>g\<close> from the state \<open>r\<close> left.\<close>

definition and_then :: "run \<Rightarrow> (run_state \<Rightarrow> run) \<Rightarrow> run" where
  "and_then r g =
     (case raised r of
        Some e \<Rightarrow> r
      | None \<Rightarrow> (let r' = g (final r) in r'\<lparr>yielded := yielded r @ yielded r'\<rparr>))"

text \<open>
  The state after a collaborator named \<open>name\<close> has run once from the state \<open>s\<close> and
  has left the Run Context \<open>ctx\<close>.
\<close>

definition resumed :: "string \<Rightarrow> topology_context \<Rightarrow> run_state \<Rightarrow> run_state" where
  "resumed name ctx s = s\<lparr>run_context := ctx, seen := seen s @ [(name, run_context s)]\<rparr>"

section \<open>Helpers imported by the runner\<close>

text \<open>Truthiness of an optional string: \<^verbatim>\<open>None\<close> and \<^verbatim>\<open>""\<close> are falsy.\<close>

definition truthy :: "string option \<Rightarrow> bool" where
  "truthy x = (case x of None \<Rightarrow> False | Some v \<Rightarrow> v \<noteq> [])"

text \<open>
  Modelled from the spec: \<^verbatim>\<open>model_str\<close> of \<^verbatim>\<open>metadata/ingestion/ometa/utils.py\<close> is not
  among the sources; it gives the string of a name.
\<close>

fun model_str :: "pyval \<Rightarrow> string" where
  "model_str (PyStr v) = v"
| "model_str PyNone = ''None''"

text \<open>
  Modelled from the spec: the methods of \<^verbatim>\<open>TopologyContext\<close>
  (\<^verbatim>\<open>metadata/ingestion/models/topology.py\<close>) are not among the sources.
  \<^verbatim>\<open>updateContextValue\<close> sets the slot the stage is bound to, \<^verbatim>\<open>updateContextName\<close> sets
  it to the name of the given object, \<^verbatim>\<open>clearStage\<close> removes it.
\<close>

definition update_context_value :: "topology_context \<Rightarrow> stage \<Rightarrow> ctx_value \<Rightarrow> topology_context" where
  "update_context_value ctx st v =
     (case stage_context st of None \<Rightarrow> ctx | Some k \<Rightarrow> ctx(k \<mapsto> v))"

definition update_context_name :: "topology_context \<Rightarrow> stage \<Rightarrow> model \<Rightarrow> error + topology_context" where
  "update_context_name ctx st obj =
     (case obj ''name'' of
        None \<Rightarrow> Inl AttributeError
      | Some v \<Rightarrow> Inr (update_context_value ctx st (CtxName (model_str v))))"

definition clear_stage :: "topology_context \<Rightarrow> stage \<Rightarrow> topology_context" where
  "clear_stage ctx st =
     (case stage_context st of None \<Rightarrow> ctx | Some k \<Rightarrow> ctx(k := None))"

section \<open>The reconciliation dispatcher\<close>

text \<open>\<^verbatim>\<open>self.metadata.get_by_name(entity=t, fqn=f, fields=["*"])\<close>: the call is recorded.\<close>

definition lookup_by_name :: "source \<Rightarrow> entity_type \<Rightarrow> string \<Rightarrow> run_state \<Rightarrow> model option \<times> run_state" where
  "lookup_by_name src t f s =
     (get_by_name (metadata src) (length (remote_calls s)) t f,
      s\<lparr>remote_calls := remote_calls s @ [GetByName t f]\<rparr>)"

definition is_force_overwrite_enabled :: "source \<Rightarrow> bool" where
  "is_force_overwrite_enabled src =
     (case metadata_config (metadata src) of
        None \<Rightarrow> False
      | Some c \<Rightarrow> forceEntityOverwriting c)"

definition create_patch_request :: "model \<Rightarrow> model \<Rightarrow> request" where
  "create_patch_request original create_request =
     PatchRequest original (original ++ create_request)"

text \<open>
  The retry loop of \<^verbatim>\<open>yield_and_update_context\<close>:
  \<^verbatim>\<open>while not entity and tries > 0\<close>, the first argument being \<^verbatim>\<open>tries\<close>.
\<close>

fun ack_poll :: "nat \<Rightarrow> source \<Rightarrow> entity_type \<Rightarrow> string \<Rightarrow> model option \<Rightarrow> run_state \<Rightarrow> model option \<times> run_state" where
  "ack_poll 0 src t f entity s = (entity, s)"
| "ack_poll (Suc tries) src t f entity s =
     (case entity of
        Some e \<Rightarrow> (entity, s)
      | None \<Rightarrow> (case lookup_by_name src t f s of (entity', s') \<Rightarrow> ack_poll tries src t f entity' s'))"

text \<open>
  Lines 256 to 266: the lookup of a stage that does not overwrite.  The result is
  \<^verbatim>\<open>entity\<close>, \<^verbatim>\<open>same_fingerprint\<close> and the state.
\<close>

definition overwrite_lookup :: "source \<Rightarrow> stage \<Rightarrow> string \<Rightarrow> run_state \<Rightarrow> model option \<times> bool \<times> run_state" where
  "overwrite_lookup src st entity_fqn s =
     (if \<not> overwrite st \<and> \<not> is_force_overwrite_enabled src
      then (case lookup_by_name src (stage_type st) entity_fqn s of
              (entity, s') \<Rightarrow> (entity, entity \<noteq> None, s'))
      else (None, False, s))"

text \<open>
  Lines 268 to 274: the fingerprint, computed and stored in the request when the request
  has the attribute \<^verbatim>\<open>sourceHash\<close>.
\<close>

definition attach_source_hash :: "source \<Rightarrow> model \<Rightarrow> string option \<times> model" where
  "attach_source_hash src req =
     (if ''sourceHash'' \<in> dom req
      then (Some (generate_source_hash src req),
            req(''sourceHash'' \<mapsto> PyStr (generate_source_hash src req)))
      else (None, req))"

text \<open>
  Lines 276 to 300: the comparison with the fingerprint cache.  It takes
  \<^verbatim>\<open>entity\<close>, \<^verbatim>\<open>same_fingerprint\<close> and the request, and gives \<^verbatim>\<open>entity\<close>,
  \<^verbatim>\<open>same_fingerprint\<close>, the new \<^verbatim>\<open>entity_request.right\<close> and the state.
\<close>

definition check_cache ::
  "source \<Rightarrow> stage \<Rightarrow> string \<Rightarrow> string option \<Rightarrow> model \<Rightarrow> model option \<Rightarrow> bool \<Rightarrow> run_state
     \<Rightarrow> model option \<times> bool \<times> request \<times> run_state" where
  "check_cache src st entity_fqn create_entity_request_hash req entity same_fingerprint s =
     (if entity = None \<and> use_cache st
      then (let entity_source_hash = cache s (stage_type st) entity_fqn in
            if truthy entity_source_hash
            then (if entity_source_hash \<noteq> create_entity_request_hash
                  then (case lookup_by_name src (stage_type st) entity_fqn s of
                          (Some e, s') \<Rightarrow> (Some e, same_fingerprint, create_patch_request e req, s')
                        | (None, s') \<Rightarrow> (None, same_fingerprint, CreateRequest req, s'))
                  else (entity, True, CreateRequest req, s))
            else (entity, same_fingerprint, CreateRequest req, s))
      else (entity, same_fingerprint, CreateRequest req, s))"

text \<open>
  Lines 307 to 326: the acknowledgement of a stage flagged \<^verbatim>\<open>must_return\<close>.
\<close>

definition await_ack :: "source \<Rightarrow> stage \<Rightarrow> string \<Rightarrow> model option \<Rightarrow> run_state \<Rightarrow> run" where
  "await_ack src st entity_fqn entity s =
     (if must_return st \<and> entity = None
      then (case ack_poll 3 src (stage_type st) entity_fqn entity s of
              (None, s') \<Rightarrow> raises MissingExpectedEntityAckException s'
            | (Some e, s') \<Rightarrow> returns s')
      else returns s)"

text \<open>Line 328: \<^verbatim>\<open>self.context.update_context_name(stage=stage, right=right)\<close>.\<close>

definition set_context_name :: "stage \<Rightarrow> model \<Rightarrow> run_state \<Rightarrow> run" where
  "set_context_name st obj s =
     (case update_context_name (run_context s) st obj of
        Inl e \<Rightarrow> raises e s
      | Inr ctx \<Rightarrow> returns (s\<lparr>run_context := ctx\<rparr>))"

definition set_context_value :: "stage \<Rightarrow> request \<Rightarrow> run_state \<Rightarrow> run" where
  "set_context_value st v s =
     returns (s\<lparr>run_context := update_context_value (run_context s) st (CtxValue v)\<rparr>)"

text \<open>
  Lines 256 to 300 together: what the dispatcher has decided when it reaches the yield.
  The result is \<^verbatim>\<open>entity\<close>, \<^verbatim>\<open>same_fingerprint\<close>, the new
  \<^verbatim>\<open>entity_request.right\<close> and the state.
\<close>

definition reconcile :: "source \<Rightarrow> stage \<Rightarrow> string \<Rightarrow> model \<Rightarrow> run_state \<Rightarrow> model option \<times> bool \<times> request \<times> run_state" where
  "reconcile src st entity_fqn req s =
     (case overwrite_lookup src st entity_fqn s of (entity, same_fingerprint, s') \<Rightarrow>
      case attach_source_hash src req of (create_entity_request_hash, req') \<Rightarrow>
        check_cache src st entity_fqn create_entity_request_hash req' entity same_fingerprint s')"

text \<open>
  The default implementation of \<^verbatim>\<open>yield_and_update_context\<close>, for a \<^verbatim>\<open>right\<close> that
  is a create request with the fields \<open>req\<close>: the decision, the yield unless the
  fingerprint is the same, the acknowledgement, the update of the context.  The request
  object is mutated in place, so the context is updated from the request that carries
  the fingerprint.
\<close>

definition yield_and_update_default :: "source \<Rightarrow> model \<Rightarrow> stage \<Rightarrow> either \<Rightarrow> run_state \<Rightarrow> run" where
  "yield_and_update_default src req st entity_request s =
     (case req ''name'' of
        None \<Rightarrow> raises AttributeError s
      | Some n \<Rightarrow>
          (let entity_fqn = fqn_from_stage src (run_context s) st (model_str n) in
           case reconcile src st entity_fqn req s of
             (entity, same_fingerprint, payload, s') \<Rightarrow>
               and_then
                 (and_then
                    (if \<not> same_fingerprint
                     then yields (entity_request\<lparr>right := Some payload\<rparr>) s'
                     else returns s')
                    (await_ack src st entity_fqn entity))
                 (set_context_name st (snd (attach_source_hash src req)))))"

text \<open>
  \<^verbatim>\<open>yield_and_update_context\<close> with its single dispatch on the class of \<^verbatim>\<open>right\<close>.
  A \<^verbatim>\<open>PatchRequest\<close> has no registered implementation and no \<^verbatim>\<open>name\<close>.
\<close>

fun yield_and_update_context :: "source \<Rightarrow> request \<Rightarrow> stage \<Rightarrow> either \<Rightarrow> run_state \<Rightarrow> run" where
  "yield_and_update_context src (CreateRequest req) st entity_request s =
     yield_and_update_default src req st entity_request s"
| "yield_and_update_context src (AddLineageRequest from_entity to_entity) st entity_request s =
     and_then (yields entity_request s) (set_context_name st from_entity)"
| "yield_and_update_context src (OMetaTagAndClassification m) st entity_request s =
     and_then (yields entity_request s) (set_context_value st (OMetaTagAndClassification m))"
| "yield_and_update_context src (OMetaCustomProperties m) st entity_request s =
     and_then (yields entity_request s) (set_context_value st (OMetaCustomProperties m))"
| "yield_and_update_context src (PatchRequest original new) st entity_request s =
     raises AttributeError s"

text \<open>
  \<^verbatim>\<open>sink_request\<close>.  The request itself may be \<^verbatim>\<open>None\<close>; then
  \<^verbatim>\<open>entity_request.left\<close> is an attribute error unless the stage is nullable.
\<close>

definition sink_request :: "source \<Rightarrow> stage \<Rightarrow> either option \<Rightarrow> run_state \<Rightarrow> run" where
  "sink_request src st entity_request s =
     (case entity_request of
        None \<Rightarrow> (if \<not> nullable st then raises AttributeError s else returns s)
      | Some er \<Rightarrow>
          (if \<not> nullable st \<and> right er = None \<and> left er = None
           then raises ValueError s
           else (case right er of
                   Some entity \<Rightarrow>
                     (if truthy (stage_context st)
                      then yield_and_update_context src entity st er s
                      else yields er s)
                 | None \<Rightarrow> yields er s)))"

section \<open>The fingerprint store\<close>

text \<open>The filter of the bulk listing in \<^verbatim>\<open>get_fqn_source_hash_dict\<close>.\<close>

definition listing_params :: "entity_type \<Rightarrow> entity_type \<Rightarrow> string \<Rightarrow> string \<times> string" where
  "listing_params parent_type child_type entity_fqn =
     (if parent_type = Database \<or> parent_type = DatabaseSchema
      then (if child_type = StoredProcedure
            then (''databaseSchema'', entity_fqn)
            else (''database'', entity_fqn))
      else (''service'', entity_fqn))"

text \<open>
  The loop over \<^verbatim>\<open>entities_list\<close>: an entity with a truthy \<^verbatim>\<open>sourceHash\<close> is stored
  under \<^verbatim>\<open>model_str(entity.fullyQualifiedName)\<close>.  Reading an attribute that the entity
  does not have is an attribute error.
\<close>

fun store_source_hashes :: "entity_type \<Rightarrow> model list \<Rightarrow> run_state \<Rightarrow> run" where
  "store_source_hashes child_type [] s = returns s"
| "store_source_hashes child_type (entity # entities) s =
     (case entity ''sourceHash'' of
        None \<Rightarrow> raises AttributeError s
      | Some PyNone \<Rightarrow> store_source_hashes child_type entities s
      | Some (PyStr h) \<Rightarrow>
          (if h = [] then store_source_hashes child_type entities s
           else (case entity ''fullyQualifiedName'' of
                   None \<Rightarrow> raises AttributeError s
                 | Some f \<Rightarrow>
                     store_source_hashes child_type entities
                       (s\<lparr>cache := (cache s)(child_type := (cache s child_type)(model_str f \<mapsto> h))\<rparr>))))"

definition get_fqn_source_hash_dict :: "source \<Rightarrow> entity_type \<Rightarrow> entity_type \<Rightarrow> string \<Rightarrow> run_state \<Rightarrow> run" where
  "get_fqn_source_hash_dict src parent_type child_type entity_fqn s =
     (let params = listing_params parent_type child_type entity_fqn;
          entities_list = list_all_entities (metadata src) (length (remote_calls s)) child_type params
      in store_source_hashes child_type entities_list
           (s\<lparr>remote_calls := remote_calls s @ [ListAll child_type params]\<rparr>))"

text \<open>
  \<^verbatim>\<open>_init_cache_dict\<close>: one listing for every stage of every child node that uses the
  cache.  \<^verbatim>\<open>self.context.__dict__[stage.context]\<close> is a key error when the slot is not
  there; a slot that holds a whole request is no name to build from.
\<close>

definition init_cache_for_stage :: "source \<Rightarrow> stage \<Rightarrow> stage \<Rightarrow> run_state \<Rightarrow> run" where
  "init_cache_for_stage src st child_stage s =
     (if use_cache child_stage
      then (case stage_context st of
              None \<Rightarrow> raises KeyError s
            | Some k \<Rightarrow>
                (case run_context s k of
                   None \<Rightarrow> raises KeyError s
                 | Some (CtxValue v) \<Rightarrow> raises TypeError s
                 | Some (CtxName entity_name) \<Rightarrow>
                     get_fqn_source_hash_dict src (stage_type st) (stage_type child_stage)
                       (fqn_from_stage src (run_context s) st entity_name) s))
      else returns s)"

fun init_cache_for_stages :: "source \<Rightarrow> stage \<Rightarrow> stage list \<Rightarrow> run_state \<Rightarrow> run" where
  "init_cache_for_stages src st [] s = returns s"
| "init_cache_for_stages src st (child_stage # child_stages) s =
     and_then (init_cache_for_stage src st child_stage s) (init_cache_for_stages src st child_stages)"

fun init_cache_dict :: "source \<Rightarrow> stage \<Rightarrow> node list \<Rightarrow> run_state \<Rightarrow> run" where
  "init_cache_dict src st [] s = returns s"
| "init_cache_dict src st (child_node # child_nodes) s =
     and_then (init_cache_for_stages src st (stages child_node) s) (init_cache_dict src st child_nodes)"

section \<open>The stage processor\<close>

text \<open>
  The body of the loop of \<^verbatim>\<open>_process_stage\<close>: \<^verbatim>\<open>sink_request\<close> under
  \<^verbatim>\<open>except ValueError\<close>, which logs a warning and goes on.  What was yielded before the
  exception stays yielded.
\<close>

definition guarded_sink_request :: "source \<Rightarrow> stage \<Rightarrow> either option \<Rightarrow> run_state \<Rightarrow> run" where
  "guarded_sink_request src st entity_request s =
     (let out = sink_request src st entity_request s in
      if raised out = Some ValueError
      then out\<lparr>raised := None,
               final := (final out)\<lparr>warnings := warnings (final out) @ [StageValueError (processor st)]\<rparr>\<rparr>
      else out)"

text \<open>
  The loop of \<^verbatim>\<open>_process_stage\<close> over the generator of the processor: each resumption
  runs under the Run Context that the requests before it have left.
\<close>

fun process_requests :: "source \<Rightarrow> stage \<Rightarrow> either option step list \<Rightarrow> run_state \<Rightarrow> run" where
  "process_requests src st [] s = returns s"
| "process_requests src st (step # steps) s =
     (case step (run_context s) of
        (None, ctx) \<Rightarrow> process_requests src st steps (resumed (processor st) ctx s)
      | (Some entity_request, ctx) \<Rightarrow>
          and_then (guarded_sink_request src st entity_request (resumed (processor st) ctx s))
            (process_requests src st steps))"

definition process_stage :: "source \<Rightarrow> stage \<Rightarrow> string \<Rightarrow> node list \<Rightarrow> run_state \<Rightarrow> run" where
  "process_stage src st node_entity child_nodes s =
     (case processors src (processor st) of
        None \<Rightarrow> raises AttributeError s
      | Some stage_fn \<Rightarrow>
          and_then
            (process_requests src st
               (case stage_fn (run_context s) node_entity of None \<Rightarrow> [] | Some rs \<Rightarrow> rs) s)
            (\<lambda>s'. if cache_entities st then init_cache_dict src st child_nodes s' else returns s'))"

section \<open>Post-process hooks\<close>

text \<open>
  One round of the loop of \<^verbatim>\<open>_run_node_post_process\<close>: \<^verbatim>\<open>getattr\<close>, the items of
  the hook, and \<^verbatim>\<open>except Exception\<close>, which logs a warning.
\<close>

definition run_post_process :: "source \<Rightarrow> string \<Rightarrow> run_state \<Rightarrow> run" where
  "run_post_process src process s =
     (case post_processors src process of
        None \<Rightarrow> returns (s\<lparr>warnings := warnings s @ [PostProcessFailed process]\<rparr>)
      | Some node_post_process \<Rightarrow>
          (case node_post_process (run_context s) of
             (items, None) \<Rightarrow>
               \<lparr>yielded = items, raised = None, final = resumed process (run_context s) s\<rparr>
           | (items, Some exc) \<Rightarrow>
               \<lparr>yielded = items, raised = None,
                final = (resumed process (run_context s) s)
                          \<lparr>warnings := warnings s @ [PostProcessFailed process]\<rparr>\<rparr>))"

fun run_post_processes :: "source \<Rightarrow> string list \<Rightarrow> run_state \<Rightarrow> run" where
  "run_post_processes src [] s = returns s"
| "run_post_processes src (process # rest) s =
     and_then (run_post_process src process s) (run_post_processes src rest)"

definition run_node_post_process :: "source \<Rightarrow> node \<Rightarrow> run_state \<Rightarrow> run" where
  "run_node_post_process src n s =
     (case post_process n of
        None \<Rightarrow> returns s
      | Some hooks \<Rightarrow> run_post_processes src hooks s)"

section \<open>The traversal engine\<close>

text \<open>
  Modelled from the spec: \<^verbatim>\<open>get_topology_node\<close> of
  \<^verbatim>\<open>metadata/ingestion/models/topology.py\<close> is not among the sources; it resolves a child
  reference in the topology, and a reference to no node is an error.
\<close>

fun get_topology_nodes :: "(string \<rightharpoonup> node) \<Rightarrow> string list \<Rightarrow> error + node list" where
  "get_topology_nodes topo [] = Inr []"
| "get_topology_nodes topo (child # rest) =
     (case topo child of
        None \<Rightarrow> Inl TopologyError
      | Some n \<Rightarrow> (case get_topology_nodes topo rest of
                    Inl e \<Rightarrow> Inl e
                  | Inr ns \<Rightarrow> Inr (n # ns)))"

definition get_child_nodes :: "source \<Rightarrow> node \<Rightarrow> error + node list" where
  "get_child_nodes src n =
     (case children n of
        None \<Rightarrow> Inr []
      | Some cs \<Rightarrow> get_topology_nodes (topology src) cs)"

text \<open>The first inner loop of \<^verbatim>\<open>process_nodes\<close>: every stage, in order.\<close>

fun process_stages :: "source \<Rightarrow> stage list \<Rightarrow> string \<Rightarrow> node list \<Rightarrow> run_state \<Rightarrow> run" where
  "process_stages src [] node_entity child_nodes s = returns s"
| "process_stages src (st # sts) node_entity child_nodes s =
     and_then (process_stage src st node_entity child_nodes s)
       (process_stages src sts node_entity child_nodes)"

text \<open>The second inner loop: \<^verbatim>\<open>clear_stage\<close> for every stage flagged \<^verbatim>\<open>clear_context\<close>.\<close>

fun clear_stages :: "stage list \<Rightarrow> run_state \<Rightarrow> run_state" where
  "clear_stages [] s = s"
| "clear_stages (st # sts) s =
     clear_stages sts
       (if clear_context st then s\<lparr>run_context := clear_stage (run_context s) st\<rparr> else s)"

text \<open>
  A generator that may not return: \<open>None\<close> when the depth bound is used up, else the run
  \<open>r\<close> followed by \<open>g\<close>.
\<close>

definition and_then_opt :: "run \<Rightarrow> (run_state \<Rightarrow> run option) \<Rightarrow> run option" where
  "and_then_opt r g =
     (case raised r of
        Some e \<Rightarrow> Some r
      | None \<Rightarrow> (case g (final r) of
                   None \<Rightarrow> None
                 | Some r' \<Rightarrow> Some (r'\<lparr>yielded := yielded r @ yielded r'\<rparr>)))"

text \<open>
  \<^verbatim>\<open>process_nodes\<close>.  The child nodes are looked up by name, so the recursion follows
  the topology and need not end; the first argument bounds its depth.
  \<open>process_node_entities\<close> is the loop over the generator of the producer.
\<close>

fun process_nodes :: "nat \<Rightarrow> source \<Rightarrow> node list \<Rightarrow> run_state \<Rightarrow> run option"
  and process_node_entities :: "nat \<Rightarrow> source \<Rightarrow> node \<Rightarrow> node list \<Rightarrow> string step list \<Rightarrow> run_state \<Rightarrow> run option" where
  "process_nodes depth src [] s = Some (returns s)"
| "process_nodes depth src (n # ns) s =
     (case producers src (producer n) of
        None \<Rightarrow> Some (raises AttributeError s)
      | Some node_producer \<Rightarrow>
          (case get_child_nodes src n of
             Inl e \<Rightarrow> Some (raises e s)
           | Inr child_nodes \<Rightarrow>
               (case process_node_entities depth src n child_nodes
                       (case node_producer (run_context s) of None \<Rightarrow> [] | Some es \<Rightarrow> es) s of
                  None \<Rightarrow> None
                | Some r \<Rightarrow>
                    and_then_opt (and_then r (run_node_post_process src n))
                      (process_nodes depth src ns))))"
| "process_node_entities depth src n child_nodes [] s = Some (returns s)"
| "process_node_entities 0 src n child_nodes (step # steps) s = None"
| "process_node_entities (Suc depth) src n child_nodes (step # steps) s =
     (case step (run_context s) of
        (None, ctx) \<Rightarrow>
          process_node_entities (Suc depth) src n child_nodes steps (resumed (producer n) ctx s)
      | (Some node_entity, ctx) \<Rightarrow>
          and_then_opt
            (process_stages src (stages n) node_entity child_nodes (resumed (producer n) ctx s))
            (\<lambda>s1. case process_nodes depth src child_nodes (clear_stages (stages n) s1) of
                     None \<Rightarrow> None
                   | Some r \<Rightarrow>
                       and_then_opt r (process_node_entities (Suc depth) src n child_nodes steps)))"

section \<open>Notions for the claims on the Run Context\<close>









section \<open>Example runs\<close>

text \<open>
  A table stage under the service \<^verbatim>\<open>svc\<close>, the candidate \<^verbatim>\<open>orders\<close> whose fingerprint
  is \<^verbatim>\<open>H1\<close>, and a service stage at the root.
\<close>

definition example_fqn :: "topology_context \<Rightarrow> stage \<Rightarrow> string \<Rightarrow> string" where
  "example_fqn ctx st n =
     (case ctx ''database_service'' of
        Some (CtxName svc) \<Rightarrow> svc @ ''.'' @ n
      | _ \<Rightarrow> n)"

definition example_source :: "(nat \<Rightarrow> entity_type \<Rightarrow> string \<Rightarrow> model option) \<Rightarrow> source" where
  "example_source answers =
     \<lparr>topology = Map.empty,
      metadata = \<lparr>get_by_name = answers, list_all_entities = (\<lambda>n t p. []), metadata_config = None\<rparr>,
      producers = Map.empty, processors = Map.empty, post_processors = Map.empty,
      generate_source_hash = (\<lambda>m. ''H1''),
      fqn_from_stage = example_fqn\<rparr>"

definition orders_request :: model where
  "orders_request = [''name'' \<mapsto> PyStr ''orders'', ''sourceHash'' \<mapsto> PyNone]"

definition orders_either :: either where
  "orders_either = \<lparr>left = None, right = Some (CreateRequest orders_request)\<rparr>"

definition stored_orders :: model where
  "stored_orders =
     [''name'' \<mapsto> PyStr ''orders'', ''id'' \<mapsto> PyStr ''7'', ''sourceHash'' \<mapsto> PyStr ''H0'']"

definition table_stage :: stage where
  "table_stage =
     \<lparr>stage_type = EntityClass ''Table'', processor = ''yield_table'',
      stage_context = Some ''table'', nullable = False, must_return = False,
      overwrite = True, cache_entities = False, use_cache = True, clear_context = False\<rparr>"

definition cached_state :: "(string \<rightharpoonup> string) \<Rightarrow> run_state" where
  "cached_state tables =
     \<lparr>run_context = [''database_service'' \<mapsto> CtxName ''svc''],
      cache = (\<lambda>t. if t = EntityClass ''Table'' then tables else Map.empty),
      remote_calls = [], warnings = [], seen = []\<rparr>"

definition service_request :: model where
  "service_request = [''name'' \<mapsto> PyStr ''svc'']"

definition service_either :: either where
  "service_either = \<lparr>left = None, right = Some (CreateRequest service_request)\<rparr>"

definition stored_service :: "string \<Rightarrow> model" where
  "stored_service n = [''name'' \<mapsto> PyStr n, ''id'' \<mapsto> PyStr ''1'']"

definition service_stage :: stage where
  "service_stage =
     \<lparr>stage_type = EntityClass ''DatabaseService'', processor = ''yield_create_request_database_service'',
      stage_context = Some ''database_service'', nullable = False, must_return = True,
      overwrite = False, cache_entities = False, use_cache = False, clear_context = False\<rparr>"

definition empty_state :: run_state where
  "empty_state =
     \<lparr>run_context = Map.empty, cache = (\<lambda>t. Map.empty), remote_calls = [], warnings = [],
      seen = []\<rparr>"

text \<open>
  A listing of the tables of \<^verbatim>\<open>svc\<close>: one with a fingerprint, one written before
  fingerprints existed.
\<close>

definition listed_tables :: "model list" where
  "listed_tables =
     [[''fullyQualifiedName'' \<mapsto> PyStr ''svc.orders'', ''sourceHash'' \<mapsto> PyStr ''H0''],
      [''fullyQualifiedName'' \<mapsto> PyStr ''svc.legacy'', ''sourceHash'' \<mapsto> PyNone]]"

definition legacy_either :: either where
  "legacy_either =
     \<lparr>left = None,
      right = Some (CreateRequest [''name'' \<mapsto> PyStr ''legacy'', ''sourceHash'' \<mapsto> PyNone])\<rparr>"

definition listing_source :: source where
  "listing_source =
     (example_source (\<lambda>n t f. None))
       \<lparr>metadata := \<lparr>get_by_name = (\<lambda>n t f. None), list_all_entities = (\<lambda>n t p. listed_tables),
                     metadata_config = None\<rparr>\<rparr>"

text \<open>
  A topology of two nodes.  The schema node has a stage for tags, flagged
  \<^verbatim>\<open>clear_context\<close>, and a stage for the schema; its child is the table node, whose
  producer names a table after the schema and the tags it finds in the Run Context and,
  like \<^verbatim>\<open>get_tables_name_and_type\<close>, sets \<^verbatim>\<open>table_data\<close> before it yields.  The
  processor of the table stage delivers a request, an \<^verbatim>\<open>Either\<close> with neither side and
  a second request, and then, like \<^verbatim>\<open>yield_table\<close>, writes \<^verbatim>\<open>table_views\<close>.
  The schema node has four post-process hooks, of which the second raises after one
  item and the third is no attribute of the source.
\<close>

definition delivers :: "'a \<Rightarrow> 'a step" where
  "delivers x ctx = (Some x, ctx)"

definition name_request :: "string \<Rightarrow> either" where
  "name_request n = \<lparr>left = None, right = Some (CreateRequest [''name'' \<mapsto> PyStr n])\<rparr>"

definition tag_request :: either where
  "tag_request = \<lparr>left = None, right = Some (OMetaTagAndClassification [''name'' \<mapsto> PyStr ''pii''])\<rparr>"

definition invalid_request :: either where
  "invalid_request = \<lparr>left = None, right = None\<rparr>"

definition tags_stage :: stage where
  "tags_stage =
     \<lparr>stage_type = EntityClass ''OMetaTagAndClassification'', processor = ''yield_tag'',
      stage_context = Some ''tags'', nullable = True, must_return = False,
      overwrite = True, cache_entities = False, use_cache = False, clear_context = True\<rparr>"

definition schema_stage :: stage where
  "schema_stage =
     \<lparr>stage_type = DatabaseSchema, processor = ''yield_database_schema'',
      stage_context = Some ''database_schema'', nullable = False, must_return = False,
      overwrite = True, cache_entities = False, use_cache = False, clear_context = False\<rparr>"

definition leaf_stage :: stage where
  "leaf_stage =
     \<lparr>stage_type = EntityClass ''Table'', processor = ''yield_table'',
      stage_context = Some ''table'', nullable = False, must_return = False,
      overwrite = True, cache_entities = False, use_cache = False, clear_context = False\<rparr>"

definition table_node :: node where
  "table_node =
     \<lparr>producer = ''get_tables'', stages = [leaf_stage], children = None, post_process = None\<rparr>"

definition schema_node :: node where
  "schema_node =
     \<lparr>producer = ''get_database_schema_names'', stages = [tags_stage, schema_stage],
      children = Some [''table''],
      post_process = Some [''mark_deleted'', ''failing_hook'', ''missing_hook'', ''yield_lineage'']\<rparr>"

definition get_tables :: "topology_context \<Rightarrow> string step list option" where
  "get_tables ctx =
     Some [\<lambda>c. (Some ((case c ''database_schema'' of Some (CtxName n) \<Rightarrow> n | _ \<Rightarrow> ''unknown'')
                       @ (if c ''tags'' = None then ''.orders'' else ''.orders.tagged'')),
                 c(''table_data'' \<mapsto> CtxName ''orders''))]"

definition yield_table :: "topology_context \<Rightarrow> string \<Rightarrow> either option step list option" where
  "yield_table ctx e =
     Some [delivers (Some (name_request e)), delivers (Some invalid_request),
           delivers (Some (name_request (e @ ''_view''))),
           \<lambda>c. (None, c(''table_views'' \<mapsto> CtxName e))]"

definition traversal_source :: source where
  "traversal_source =
     \<lparr>topology = [''schema'' \<mapsto> schema_node, ''table'' \<mapsto> table_node],
      metadata = \<lparr>get_by_name = (\<lambda>n t f. None), list_all_entities = (\<lambda>n t p. []),
                  metadata_config = None\<rparr>,
      producers = [''get_database_schema_names'' \<mapsto> (\<lambda>ctx. Some [delivers ''sales'']),
                   ''get_tables'' \<mapsto> get_tables],
      processors = [''yield_tag'' \<mapsto> (\<lambda>ctx e. Some [delivers (Some tag_request)]),
                    ''yield_database_schema'' \<mapsto> (\<lambda>ctx e. Some [delivers (Some (name_request e))]),
                    ''yield_table'' \<mapsto> yield_table],
      post_processors = [''mark_deleted'' \<mapsto> (\<lambda>ctx. ([name_request ''deleted''], None)),
                         ''failing_hook'' \<mapsto> (\<lambda>ctx. ([name_request ''partial''], Some KeyError)),
                         ''yield_lineage'' \<mapsto> (\<lambda>ctx. ([name_request ''lineage''], None))],
      generate_source_hash = (\<lambda>m. ''H1''),
      fqn_from_stage = example_fqn\<rparr>"

text \<open>
  The candidate \<^verbatim>\<open>sales\<close> of the schema node: the state in which its stages start,
  the state they leave, the state from which the table node is processed, and the state
  the table node leaves.
\<close>

definition sales_start :: run_state where
  "sales_start = resumed (producer schema_node) Map.empty empty_state"

definition sales_stages_done :: run_state where
  "sales_stages_done =
     final (process_stages traversal_source (stages schema_node) ''sales'' [table_node] sales_start)"

definition sales_children_start :: run_state where
  "sales_children_start = clear_stages (stages schema_node) sales_stages_done"

definition sales_children_run :: run where
  "sales_children_run =
     (case process_nodes 1 traversal_source [table_node] sales_children_start of
        Some r \<Rightarrow> r
      | None \<Rightarrow> returns sales_children_start)"

section \<open>Lemmas on the dispatcher\<close>

lemma lookup_by_name_fields:
  "run_context (snd (lookup_by_name src t f s)) = run_context s"
  "cache (snd (lookup_by_name src t f s)) = cache s"
  "warnings (snd (lookup_by_name src t f s)) = warnings s"
  "remote_calls (snd (lookup_by_name src t f s)) = remote_calls s @ [GetByName t f]"
  "fst (lookup_by_name src t f s) = get_by_name (metadata src) (length (remote_calls s)) t f"
  by (simp_all add: lookup_by_name_def)

lemma sink_request_create:
  assumes "right er = Some (CreateRequest req)" and "truthy (stage_context st)"
  shows "sink_request src st (Some er) s = yield_and_update_default src req st er s"
  using assms by (simp add: sink_request_def)

lemma overwrite_lookup_unresolved:
  assumes "fst (overwrite_lookup src st f s) = None"
  shows "overwrite_lookup src st f s = (None, False, snd (snd (overwrite_lookup src st f s)))"
  using assms by (auto simp: overwrite_lookup_def split: prod.splits if_splits)

lemma overwrite_lookup_frame:
  "cache (snd (snd (overwrite_lookup src st f s))) = cache s"
  "run_context (snd (snd (overwrite_lookup src st f s))) = run_context s"
  "warnings (snd (snd (overwrite_lookup src st f s))) = warnings s"
  by (auto simp: overwrite_lookup_def lookup_by_name_def split: prod.splits if_splits)

lemma attach_source_hash_name: "snd (attach_source_hash src req) ''name'' = req ''name''"
  by (simp add: attach_source_hash_def)

lemma set_context_name_ok:
  assumes "obj ''name'' = Some n"
  shows "set_context_name st obj s =
           returns (s\<lparr>run_context := update_context_value (run_context s) st (CtxName (model_str n))\<rparr>)"
  using assms by (simp add: set_context_name_def update_context_name_def)

lemma returns_sel [simp]:
  "yielded (returns s) = []" "raised (returns s) = None" "final (returns s) = s"
  by (simp_all add: returns_def)

lemma raises_sel [simp]:
  "yielded (raises e s) = []" "raised (raises e s) = Some e" "final (raises e s) = s"
  by (simp_all add: raises_def)

lemma yields_sel [simp]:
  "yielded (yields x s) = [x]" "raised (yields x s) = None" "final (yields x s) = s"
  by (simp_all add: yields_def)

lemma and_then_returns [simp]: "and_then (returns s) g = g s"
  by (simp add: and_then_def returns_def)

lemma and_then_raises [simp]: "and_then (raises e s) g = raises e s"
  by (simp add: and_then_def raises_def)

lemma and_then_yields: "and_then (yields x s) g = (g s)\<lparr>yielded := x # yielded (g s)\<rparr>"
  by (simp add: and_then_def yields_def Let_def)

lemma yielded_and_then_returns: "raised r = None \<Longrightarrow> yielded (and_then r (\<lambda>s. returns (h s))) = yielded r"
  by (simp add: and_then_def returns_def)


lemma reconcile_unresolved:
  assumes "fst (overwrite_lookup src st f s) = None"
  shows "reconcile src st f req s =
           check_cache src st f (fst (attach_source_hash src req)) (snd (attach_source_hash src req))
             None False (snd (snd (overwrite_lookup src st f s)))"
proof -
  define s1 where "s1 = snd (snd (overwrite_lookup src st f s))"
  have "overwrite_lookup src st f s = (None, False, s1)"
    unfolding s1_def by (rule overwrite_lookup_unresolved[OF assms])
  then show ?thesis
    by (simp add: reconcile_def s1_def[symmetric] case_prod_beta)
qed

lemma check_cache_same:
  assumes "use_cache st" and "cache s (stage_type st) f = Some h" and "h \<noteq> []"
  shows "check_cache src st f (Some h) req None same s = (None, True, CreateRequest req, s)"
  using assms by (simp add: check_cache_def truthy_def)

lemma check_cache_miss:
  assumes "use_cache st" and "cache s (stage_type st) f = None"
  shows "check_cache src st f hash req None same s = (None, same, CreateRequest req, s)"
  using assms by (simp add: check_cache_def truthy_def)

lemma check_cache_changed:
  assumes "use_cache st" and "cache s (stage_type st) f = Some h" and "h \<noteq> []"
    and "hash \<noteq> Some h"
  shows "check_cache src st f hash req None same s =
           (case get_by_name (metadata src) (length (remote_calls s)) (stage_type st) f of
              Some e \<Rightarrow> (Some e, same, create_patch_request e req,
                          s\<lparr>remote_calls := remote_calls s @ [GetByName (stage_type st) f]\<rparr>)
            | None \<Rightarrow> (None, same, CreateRequest req,
                        s\<lparr>remote_calls := remote_calls s @ [GetByName (stage_type st) f]\<rparr>))"
  using assms by (auto simp: check_cache_def truthy_def lookup_by_name_def split: option.splits)

lemma default_unfold:
  assumes "req ''name'' = Some n"
    and "reconcile src st (fqn_from_stage src (run_context s) st (model_str n)) req s =
           (entity, same, payload, s')"
  shows "yield_and_update_default src req st er s =
           and_then
             (and_then (if \<not> same then yields (er\<lparr>right := Some payload\<rparr>) s' else returns s')
                (await_ack src st (fqn_from_stage src (run_context s) st (model_str n)) entity))
             (\<lambda>s''. returns (s''\<lparr>run_context :=
                 update_context_value (run_context s'') st (CtxName (model_str n))\<rparr>))"
proof -
  have "set_context_name st (snd (attach_source_hash src req)) =
        (\<lambda>s''. returns (s''\<lparr>run_context :=
                 update_context_value (run_context s'') st (CtxName (model_str n))\<rparr>))"
    using assms(1) by (intro ext set_context_name_ok) (simp add: attach_source_hash_name)
  then show ?thesis
    using assms by (simp add: yield_and_update_default_def)
qed

lemma await_ack_skip: "\<not> must_return st \<Longrightarrow> await_ack src st f entity s = returns s"
  by (simp add: await_ack_def)


lemma ack_poll_resolved: "ack_poll k src t f (Some e) s = (Some e, s)"
  by (cases k) simp_all

lemma ack_poll_calls:
  "\<exists>j\<le>k. remote_calls (snd (ack_poll k src t f entity s)) = remote_calls s @ replicate j (GetByName t f)"
proof (induction k arbitrary: entity s)
  case 0
  then show ?case by simp
next
  case (Suc k)
  show ?case
  proof (cases entity)
    case (Some e)
    then show ?thesis by (simp add: ack_poll_resolved)
  next
    case None
    obtain j where j: "j \<le> k"
      "remote_calls (snd (ack_poll k src t f (fst (lookup_by_name src t f s)) (snd (lookup_by_name src t f s))))
         = remote_calls (snd (lookup_by_name src t f s)) @ replicate j (GetByName t f)"
      using Suc.IH by blast
    have "remote_calls (snd (ack_poll (Suc k) src t f entity s))
            = remote_calls s @ replicate (Suc j) (GetByName t f)"
      using None j(2) by (simp add: case_prod_beta lookup_by_name_fields replicate_append_same)
    with j(1) show ?thesis by (metis Suc_le_mono)
  qed
qed





lemma await_ack_yielded: "yielded (await_ack src st f entity s) = []"
  by (simp add: await_ack_def split: prod.splits option.splits)

lemma await_ack_final:
  "final (await_ack src st f entity s) =
     (if must_return st \<and> entity = None then snd (ack_poll 3 src (stage_type st) f entity s) else s)"
  by (auto simp: await_ack_def split: prod.splits option.splits)

lemma await_ack_calls:
  "\<exists>j\<le>3. remote_calls (final (await_ack src st f entity s)) = remote_calls s @ replicate j (GetByName (stage_type st) f)"
proof (cases "must_return st \<and> entity = None")
  case True
  then show ?thesis using ack_poll_calls[of 3 src "stage_type st" f entity s]
    by (simp add: await_ack_final)
next
  case False
  then have "final (await_ack src st f entity s) = s"
    by (simp only: await_ack_final if_False)
  then have "remote_calls (final (await_ack src st f entity s)) = remote_calls s @ replicate 0 (GetByName (stage_type st) f)"
    by simp
  then show ?thesis by blast
qed


text \<open>The three components of a default dispatch, once its decision is known.\<close>

lemma and_then_sel:
  "yielded (and_then r g) = (if raised r = None then yielded r @ yielded (g (final r)) else yielded r)"
  "raised (and_then r g) = (if raised r = None then raised (g (final r)) else raised r)"
  "final (and_then r g) = (if raised r = None then final (g (final r)) else final r)"
  by (auto simp: and_then_def Let_def split: option.splits)

lemma default_yielded:
  assumes "req ''name'' = Some n"
    and "reconcile src st (fqn_from_stage src (run_context s) st (model_str n)) req s =
           (entity, same, payload, s')"
  shows "yielded (yield_and_update_default src req st er s) =
           (if same then [] else [er\<lparr>right := Some payload\<rparr>])"
  by (simp add: default_unfold[OF assms] and_then_sel await_ack_yielded)


lemma default_final:
  assumes "req ''name'' = Some n"
    and "reconcile src st (fqn_from_stage src (run_context s) st (model_str n)) req s =
           (entity, same, payload, s')"
  shows "final (yield_and_update_default src req st er s) =
           (let s2 = final (await_ack src st (fqn_from_stage src (run_context s) st (model_str n)) entity s')
            in if raised (await_ack src st (fqn_from_stage src (run_context s) st (model_str n)) entity s') = None
               then s2\<lparr>run_context := update_context_value (run_context s2) st (CtxName (model_str n))\<rparr>
               else s2)"
  by (simp add: default_unfold[OF assms] and_then_sel Let_def)



lemmas dispatcher_defs =
  sink_request_def truthy_def yield_and_update_default_def reconcile_def
  overwrite_lookup_def attach_source_hash_def check_cache_def await_ack_def
  lookup_by_name_def set_context_name_def update_context_name_def update_context_value_def
  is_force_overwrite_enabled_def create_patch_request_def numeral_3_eq_3 Let_def

lemmas example_defs =
  example_source_def example_fqn_def orders_request_def orders_either_def stored_orders_def
  table_stage_def cached_state_def service_request_def service_either_def stored_service_def
  service_stage_def empty_state_def

lemmas traversal_defs =
  listed_tables_def listing_source_def name_request_def tag_request_def invalid_request_def
  tags_stage_def schema_stage_def leaf_stage_def table_node_def schema_node_def get_tables_def
  yield_table_def delivers_def legacy_either_def traversal_source_def
  sales_start_def sales_stages_done_def sales_children_start_def sales_children_run_def

section \<open>Claims on the dispatcher\<close>

subsection \<open>Cache hit with the same fingerprint\<close>

text \<open>
  C1, as amended.  A create request is dispatched by \<^verbatim>\<open>sink_request\<close> on a stage bound to
  the context that uses the cache, and the lookup of a stage that does not overwrite, if
  there was one, has found no entity.  If the cache holds, for the type of the stage and the
  fully-qualified name of the request, a fingerprint that is not empty and equals the one
  computed for the request, then nothing is yielded.  If moreover the stage is not flagged
  \<^verbatim>\<open>must_return\<close>, nothing is raised and no remote call is issued after that lookup.
\<close>

theorem same_fingerprint_suppresses_write:
  assumes er: "right er = Some (CreateRequest req)"
    and ctx: "truthy (stage_context st)"
    and name: "req ''name'' = Some n"
    and uc: "use_cache st"
    and unres: "fst (overwrite_lookup src st (fqn_from_stage src (run_context s) st (model_str n)) s) = None"
    and sh: "''sourceHash'' \<in> dom req"
    and hit: "cache s (stage_type st) (fqn_from_stage src (run_context s) st (model_str n))
                = Some (generate_source_hash src req)"
    and ne: "generate_source_hash src req \<noteq> []"
  shows "yielded (sink_request src st (Some er) s) = [] \<and>
         (\<not> must_return st \<longrightarrow>
           raised (sink_request src st (Some er) s) = None \<and>
           remote_calls (final (sink_request src st (Some er) s)) =
             remote_calls (snd (snd (overwrite_lookup src st
                (fqn_from_stage src (run_context s) st (model_str n)) s))))"
proof -
  let ?f = "fqn_from_stage src (run_context s) st (model_str n)"
  let ?s1 = "snd (snd (overwrite_lookup src st ?f s))"
  have h: "fst (attach_source_hash src req) = Some (generate_source_hash src req)"
    using sh by (simp add: attach_source_hash_def)
  have rec: "reconcile src st ?f req s =
      (None, True, CreateRequest (snd (attach_source_hash src req)), ?s1)"
    using check_cache_same[OF uc _ ne, of ?s1 ?f] hit
    by (simp add: reconcile_unresolved[OF unres] h overwrite_lookup_frame)
  have run: "sink_request src st (Some er) s =
      and_then (await_ack src st ?f None ?s1)
        (\<lambda>s''. returns (s''\<lparr>run_context :=
                 update_context_value (run_context s'') st (CtxName (model_str n))\<rparr>))"
    by (simp add: sink_request_create[OF er ctx] default_unfold[OF name rec])
  have "yielded (sink_request src st (Some er) s) = []"
    unfolding run
    by (simp add: await_ack_def and_then_def returns_def raises_def split: prod.splits option.splits)
  moreover have "\<not> must_return st \<longrightarrow>
           raised (sink_request src st (Some er) s) = None \<and>
           remote_calls (final (sink_request src st (Some er) s)) = remote_calls ?s1"
    unfolding run by (simp add: await_ack_skip)
  ultimately show ?thesis by simp
qed

text \<open>
  The scenario of the specification: the candidate \<^verbatim>\<open>orders\<close> with the fingerprint
  \<^verbatim>\<open>H1\<close> and the cache \<^verbatim>\<open>{"svc.orders": "H1"}\<close>.
\<close>

theorem same_fingerprint_suppresses_write_witness:
  "yielded (sink_request (example_source (\<lambda>n t f. None)) table_stage
      (Some orders_either) (cached_state [''svc.orders'' \<mapsto> ''H1''])) = [] \<and>
   raised (sink_request (example_source (\<lambda>n t f. None)) table_stage
      (Some orders_either) (cached_state [''svc.orders'' \<mapsto> ''H1''])) = None \<and>
   remote_calls (final (sink_request (example_source (\<lambda>n t f. None)) table_stage
      (Some orders_either) (cached_state [''svc.orders'' \<mapsto> ''H1'']))) = []"
  using same_fingerprint_suppresses_write[of orders_either orders_request table_stage "PyStr ''orders''"
      "example_source (\<lambda>n t f. None)" "cached_state [''svc.orders'' \<mapsto> ''H1'']"]
  by (simp add: example_defs truthy_def overwrite_lookup_def)

text \<open>
  The same scenario on a stage that is also flagged \<^verbatim>\<open>must_return\<close>: the cache holds
  the fingerprint of the candidate, and the dispatcher calls the remote store three times
  and raises.
\<close>

theorem same_fingerprint_must_return_polls:
  "use_cache (table_stage\<lparr>must_return := True\<rparr>) \<and>
   cache (cached_state [''svc.orders'' \<mapsto> ''H1'']) (EntityClass ''Table'') ''svc.orders''
     = Some (generate_source_hash (example_source (\<lambda>n t f. None)) orders_request) \<and>
   remote_calls (final (sink_request (example_source (\<lambda>n t f. None)) (table_stage\<lparr>must_return := True\<rparr>)
      (Some orders_either) (cached_state [''svc.orders'' \<mapsto> ''H1''])))
     = [GetByName (EntityClass ''Table'') ''svc.orders'', GetByName (EntityClass ''Table'') ''svc.orders'',
        GetByName (EntityClass ''Table'') ''svc.orders''] \<and>
   raised (sink_request (example_source (\<lambda>n t f. None)) (table_stage\<lparr>must_return := True\<rparr>)
      (Some orders_either) (cached_state [''svc.orders'' \<mapsto> ''H1'']))
     = Some MissingExpectedEntityAckException"
  by (simp add: dispatcher_defs example_defs)

subsection \<open>Cache hit with a different fingerprint\<close>

text \<open>
  C2, as amended.  Under the same conditions on the request and the stage, if the cache
  holds a fingerprint that is not empty and differs from the one computed for the request,
  the dispatcher fetches the remote entity by the fully-qualified name.  If the fetch gives
  an entity, a patch request is yielded in place of the create request: its original is
  the fetched entity, and its new entity has the value of the request for every field of
  the request and the value of the original for every other field.  If the fetch gives
  nothing, the create request is yielded, with the fingerprint attached.
\<close>

theorem changed_fingerprint_yields_patch:
  fixes src st s req n
  defines "f \<equiv> fqn_from_stage src (run_context s) st (model_str n)"
  defines "s1 \<equiv> snd (snd (overwrite_lookup src st f s))"
  defines "req' \<equiv> snd (attach_source_hash src req)"
  defines "answer \<equiv> get_by_name (metadata src) (length (remote_calls s1)) (stage_type st) f"
  assumes er: "right er = Some (CreateRequest req)"
    and ctx: "truthy (stage_context st)"
    and name: "req ''name'' = Some n"
    and uc: "use_cache st"
    and unres: "fst (overwrite_lookup src st f s) = None"
    and hit: "cache s (stage_type st) f = Some h"
    and ne: "h \<noteq> []"
    and diff: "fst (attach_source_hash src req) \<noteq> Some h"
  shows "(\<exists>rest. remote_calls (final (sink_request src st (Some er) s))
                  = remote_calls s1 @ GetByName (stage_type st) f # rest) \<and>
         (\<forall>original. answer = Some original \<longrightarrow>
            yielded (sink_request src st (Some er) s)
              = [er\<lparr>right := Some (PatchRequest original (original ++ req'))\<rparr>] \<and>
            (\<forall>k. (original ++ req') k = (if k \<in> dom req' then req' k else original k))) \<and>
         (answer = None \<longrightarrow>
            yielded (sink_request src st (Some er) s) = [er\<lparr>right := Some (CreateRequest req')\<rparr>])"
proof -
  let ?s2 = "s1\<lparr>remote_calls := remote_calls s1 @ [GetByName (stage_type st) f]\<rparr>"
  have cc: "reconcile src st f req s =
      (case answer of
         Some e \<Rightarrow> (Some e, False, create_patch_request e req', ?s2)
       | None \<Rightarrow> (None, False, CreateRequest req', ?s2))"
  proof -
    have "cache s1 (stage_type st) f = Some h"
      using hit by (simp add: s1_def overwrite_lookup_frame)
    then show ?thesis
      using check_cache_changed[OF uc _ ne diff, of s1 f src req' False]
      by (simp add: reconcile_unresolved[OF unres] s1_def[symmetric] req'_def[symmetric] answer_def)
  qed
  obtain entity payload where rec: "reconcile src st f req s = (entity, False, payload, ?s2)"
    and pay: "payload = (case answer of Some e \<Rightarrow> create_patch_request e req' | None \<Rightarrow> CreateRequest req')"
    using cc by (cases answer) simp_all
  have run: "sink_request src st (Some er) s = yield_and_update_default src req st er s"
    by (rule sink_request_create[OF er ctx])
  have y: "yielded (sink_request src st (Some er) s) = [er\<lparr>right := Some payload\<rparr>]"
    using default_yielded[OF name rec[unfolded f_def]] by (simp add: run)
  obtain j where "remote_calls (final (await_ack src st f entity ?s2))
      = remote_calls ?s2 @ replicate j (GetByName (stage_type st) f)"
    using await_ack_calls by blast
  then have "remote_calls (final (sink_request src st (Some er) s))
      = remote_calls s1 @ GetByName (stage_type st) f # replicate j (GetByName (stage_type st) f)"
    using default_final[OF name rec[unfolded f_def], of er]
    by (simp add: run f_def[symmetric] Let_def)
  then have calls: "\<exists>rest. remote_calls (final (sink_request src st (Some er) s))
                  = remote_calls s1 @ GetByName (stage_type st) f # rest"
    by blast
  have merge: "\<And>original k. (original ++ req') k = (if k \<in> dom req' then req' k else original k)"
    by (auto simp: map_add_def split: option.splits)
  show ?thesis
    using calls y pay merge by (simp add: create_patch_request_def)
qed

text \<open>
  The scenario of the specification: the cache \<^verbatim>\<open>{"svc.orders": "H0"}\<close>, and a stored
  entity with the server-assigned field \<^verbatim>\<open>id\<close>.
\<close>

theorem changed_fingerprint_yields_patch_witness:
  "yielded (sink_request (example_source (\<lambda>n t f. Some stored_orders)) table_stage
      (Some orders_either) (cached_state [''svc.orders'' \<mapsto> ''H0'']))
     = [orders_either\<lparr>right := Some (PatchRequest stored_orders
          (stored_orders ++ orders_request(''sourceHash'' \<mapsto> PyStr ''H1'')))\<rparr>] \<and>
   (stored_orders ++ orders_request(''sourceHash'' \<mapsto> PyStr ''H1'')) ''id'' = Some (PyStr ''7'') \<and>
   (stored_orders ++ orders_request(''sourceHash'' \<mapsto> PyStr ''H1'')) ''sourceHash'' = Some (PyStr ''H1'')"
  using changed_fingerprint_yields_patch[where er = orders_either and req = orders_request
      and st = table_stage and n = "PyStr ''orders''" and h = "''H0''"
      and src = "example_source (\<lambda>n t f. Some stored_orders)"
      and s = "cached_state [''svc.orders'' \<mapsto> ''H0'']"]
  by (simp add: example_defs truthy_def overwrite_lookup_def attach_source_hash_def)

text \<open>
  The fetch finds nothing (the entity is gone from the remote store): the cache holds a
  different fingerprint, and the create request is yielded, not a patch.
\<close>

theorem changed_fingerprint_absent_entity_creates:
  "use_cache table_stage \<and>
   cache (cached_state [''svc.orders'' \<mapsto> ''H0'']) (EntityClass ''Table'') ''svc.orders'' = Some ''H0'' \<and>
   generate_source_hash (example_source (\<lambda>n t f. None)) orders_request \<noteq> ''H0'' \<and>
   yielded (sink_request (example_source (\<lambda>n t f. None)) table_stage
      (Some orders_either) (cached_state [''svc.orders'' \<mapsto> ''H0'']))
     = [orders_either\<lparr>right := Some (CreateRequest (orders_request(''sourceHash'' \<mapsto> PyStr ''H1'')))\<rparr>]"
  by (simp add: dispatcher_defs example_defs and_then_def returns_def yields_def)

subsection \<open>Cache miss\<close>

text \<open>
  C3.  Under the same conditions on the request and the stage, if the cache has no entry
  for the fully-qualified name and the request has the field \<^verbatim>\<open>sourceHash\<close>, the create
  request is yielded with the computed fingerprint in \<^verbatim>\<open>sourceHash\<close>, and the decision
  leaves the state as the lookup of a stage that does not overwrite left it: the
  comparison calls the remote store not at all.
\<close>

theorem cache_miss_yields_create:
  fixes src st s req n
  defines "f \<equiv> fqn_from_stage src (run_context s) st (model_str n)"
  defines "s1 \<equiv> snd (snd (overwrite_lookup src st f s))"
  defines "req' \<equiv> req(''sourceHash'' \<mapsto> PyStr (generate_source_hash src req))"
  assumes er: "right er = Some (CreateRequest req)"
    and ctx: "truthy (stage_context st)"
    and name: "req ''name'' = Some n"
    and uc: "use_cache st"
    and unres: "fst (overwrite_lookup src st f s) = None"
    and sh: "''sourceHash'' \<in> dom req"
    and miss: "cache s (stage_type st) f = None"
  shows "yielded (sink_request src st (Some er) s) = [er\<lparr>right := Some (CreateRequest req')\<rparr>] \<and>
         reconcile src st f req s = (None, False, CreateRequest req', s1)"
proof -
  have att: "attach_source_hash src req = (Some (generate_source_hash src req), req')"
    using sh by (simp add: attach_source_hash_def req'_def)
  have rec: "reconcile src st f req s = (None, False, CreateRequest req', s1)"
  proof -
    have "cache s1 (stage_type st) f = None"
      using miss by (simp add: s1_def overwrite_lookup_frame)
    then show ?thesis
      using check_cache_miss[OF uc, of s1 f src "Some (generate_source_hash src req)" req' False]
      by (simp add: reconcile_unresolved[OF unres] s1_def[symmetric] att)
  qed
  show ?thesis
    using default_yielded[OF name rec[unfolded f_def], of er] rec
    by (simp add: sink_request_create[OF er ctx])
qed

theorem cache_miss_yields_create_witness:
  "yielded (sink_request (example_source (\<lambda>n t f. None)) table_stage
      (Some orders_either) (cached_state Map.empty))
     = [orders_either\<lparr>right := Some (CreateRequest (orders_request(''sourceHash'' \<mapsto> PyStr ''H1'')))\<rparr>] \<and>
   reconcile (example_source (\<lambda>n t f. None)) table_stage ''svc.orders'' orders_request (cached_state Map.empty)
     = (None, False, CreateRequest (orders_request(''sourceHash'' \<mapsto> PyStr ''H1'')), cached_state Map.empty)"
  using cache_miss_yields_create[where er = orders_either and req = orders_request
      and st = table_stage and n = "PyStr ''orders''"
      and src = "example_source (\<lambda>n t f. None)" and s = "cached_state Map.empty"]
  by (simp add: example_defs truthy_def overwrite_lookup_def)

subsection \<open>Acknowledgement\<close>



subsection \<open>Stages that do not overwrite\<close>




subsection \<open>Stages without a context binding\<close>

text \<open>
  C10.  A request with a \<^verbatim>\<open>right\<close>, dispatched by \<^verbatim>\<open>sink_request\<close> on a stage whose
  \<^verbatim>\<open>context\<close> is unset, is yielded once and as it is, nothing is raised, and the state is
  the one before the call: no fingerprint is attached, the remote store is not called, and
  neither the cache nor the Run Context changes.
\<close>

theorem sink_request_without_context:
  assumes "right er = Some entity" and "stage_context st = None"
  shows "sink_request src st (Some er) s = \<lparr>yielded = [er], raised = None, final = s\<rparr>"
  using assms by (simp add: sink_request_def truthy_def yields_def)

theorem sink_request_without_context_witness:
  "sink_request (example_source (\<lambda>n t f. None)) (table_stage\<lparr>stage_context := None\<rparr>)
      (Some orders_either) (cached_state [''svc.orders'' \<mapsto> ''H0''])
     = \<lparr>yielded = [orders_either], raised = None, final = cached_state [''svc.orders'' \<mapsto> ''H0'']\<rparr>"
  using sink_request_without_context[of orders_either "CreateRequest orders_request"
      "table_stage\<lparr>stage_context := None\<rparr>" "example_source (\<lambda>n t f. None)"
      "cached_state [''svc.orders'' \<mapsto> ''H0'']"]
  by (simp add: orders_either_def table_stage_def)


section \<open>Claims on the fingerprint store\<close>


lemma store_source_hashes_returns:
  assumes "\<forall>e\<in>set es. ''sourceHash'' \<in> dom e \<and> ''fullyQualifiedName'' \<in> dom e"
  shows "raised (store_source_hashes child es s) = None"
  using assms
  by (induction child es s rule: store_source_hashes.induct)
     (auto split: option.splits pyval.splits)

lemma store_source_hashes_untouched:
  assumes "\<forall>e\<in>set es. \<forall>f h. e ''fullyQualifiedName'' = Some f \<and> e ''sourceHash'' = Some (PyStr h) \<and> h \<noteq> []
             \<longrightarrow> model_str f \<noteq> k"
  shows "cache (final (store_source_hashes child es s)) child k = cache s child k"
  using assms
  by (induction child es s rule: store_source_hashes.induct)
     (auto split: option.splits pyval.splits)

lemma store_source_hashes_recorded:
  assumes "e \<in> set es"
    and "e ''fullyQualifiedName'' = Some f" and "e ''sourceHash'' = Some (PyStr h)" and "h \<noteq> []"
    and "distinct (map (\<lambda>e. map_option model_str (e ''fullyQualifiedName'')) es)"
    and "\<forall>e\<in>set es. ''sourceHash'' \<in> dom e \<and> ''fullyQualifiedName'' \<in> dom e"
  shows "cache (final (store_source_hashes child es s)) child (model_str f) = Some h"
  using assms
proof (induction es arbitrary: s)
  case Nil
  then show ?case by simp
next
  case (Cons x xs)
  show ?case
  proof (cases "x = e")
    case True
    have "\<forall>y\<in>set xs. \<forall>g. y ''fullyQualifiedName'' = Some g \<longrightarrow> model_str g \<noteq> model_str f"
    proof (intro ballI allI impI)
      fix y g assume y: "y \<in> set xs" and g: "y ''fullyQualifiedName'' = Some g"
      have "map_option model_str (x ''fullyQualifiedName'') \<notin> set (map (\<lambda>e. map_option model_str (e ''fullyQualifiedName'')) xs)"
        using Cons.prems(5) by simp
      then have "map_option model_str (y ''fullyQualifiedName'') \<noteq> map_option model_str (x ''fullyQualifiedName'')"
        using y by (metis (mono_tags, lifting) image_eqI list.set_map)
      then show "model_str g \<noteq> model_str f"
        using g True Cons.prems(2) by simp
    qed
    then have "cache (final (store_source_hashes child xs
                 (s\<lparr>cache := (cache s)(child := (cache s child)(model_str f \<mapsto> h))\<rparr>))) child (model_str f)
               = cache (s\<lparr>cache := (cache s)(child := (cache s child)(model_str f \<mapsto> h))\<rparr>) child (model_str f)"
      by (intro store_source_hashes_untouched) blast
    then show ?thesis
      using True Cons.prems by simp
  next
    case False
    then have e: "e \<in> set xs" using Cons.prems(1) by simp
    have d: "distinct (map (\<lambda>e. map_option model_str (e ''fullyQualifiedName'')) xs)"
      using Cons.prems(5) by simp
    have t: "\<forall>e\<in>set xs. ''sourceHash'' \<in> dom e \<and> ''fullyQualifiedName'' \<in> dom e"
      using Cons.prems(6) by simp
    note IH = Cons.IH[OF e Cons.prems(2,3,4) d t]
    have "''sourceHash'' \<in> dom x \<and> ''fullyQualifiedName'' \<in> dom x"
      using Cons.prems(6) by simp
    then show ?thesis
      using IH by (auto split: option.splits pyval.splits)
  qed
qed


lemma check_cache_no_entry:
  assumes "cache s (stage_type st) f = None"
  shows "check_cache src st f hash req entity same s = (entity, same, CreateRequest req, s)"
  using assms by (simp add: check_cache_def truthy_def)

text \<open>
  C9, as amended.  \<^verbatim>\<open>get_fqn_source_hash_dict\<close> lists the entities of the child type; the listed
  entities have the attributes \<^verbatim>\<open>sourceHash\<close> and \<^verbatim>\<open>fullyQualifiedName\<close>, and no two
  of them have the same fully-qualified name.  Then nothing is raised; every listed
  entity whose \<^verbatim>\<open>sourceHash\<close> is a string that is not empty is in the cache of the child
  type under its fully-qualified name, with that fingerprint; and for every listed entity
  whose \<^verbatim>\<open>sourceHash\<close> is \<^verbatim>\<open>None\<close> or empty the listing writes nothing: it leaves
  the entry of its name as it was.  When the name had no entry before the listing, the
  comparison with the cache on a stage of the child type changes neither \<^verbatim>\<open>entity\<close>
  nor \<^verbatim>\<open>same_fingerprint\<close> and calls the remote store not at all, so the cache alone
  does not make the candidate unchanged; an entry that an earlier listing has recorded
  stays.
\<close>

theorem listing_records_nonempty_fingerprints:
  fixes src parent_type child_type entity_fqn s
  defines "listed \<equiv> list_all_entities (metadata src) (length (remote_calls s)) child_type
                      (listing_params parent_type child_type entity_fqn)"
  defines "r \<equiv> get_fqn_source_hash_dict src parent_type child_type entity_fqn s"
  assumes typed: "\<forall>e\<in>set listed. ''sourceHash'' \<in> dom e \<and> ''fullyQualifiedName'' \<in> dom e"
    and uniq: "distinct (map (\<lambda>e. map_option model_str (e ''fullyQualifiedName'')) listed)"
  shows "raised r = None \<and>
         (\<forall>e\<in>set listed. \<forall>f h.
            e ''fullyQualifiedName'' = Some f \<and> e ''sourceHash'' = Some (PyStr h) \<and> h \<noteq> [] \<longrightarrow>
              cache (final r) child_type (model_str f) = Some h) \<and>
         (\<forall>e\<in>set listed. \<forall>f.
            e ''fullyQualifiedName'' = Some f \<and>
            (e ''sourceHash'' = Some PyNone \<or> e ''sourceHash'' = Some (PyStr [])) \<longrightarrow>
              cache (final r) child_type (model_str f) = cache s child_type (model_str f) \<and>
              (cache s child_type (model_str f) = None \<longrightarrow>
                 (\<forall>st hash req entity same.
                    stage_type st = child_type \<longrightarrow>
                    check_cache src st (model_str f) hash req entity same (final r)
                      = (entity, same, CreateRequest req, final r))))"
proof -
  let ?s0 = "s\<lparr>remote_calls := remote_calls s @ [ListAll child_type (listing_params parent_type child_type entity_fqn)]\<rparr>"
  have r: "r = store_source_hashes child_type listed ?s0"
    by (simp add: r_def listed_def get_fqn_source_hash_dict_def Let_def)
  have ok: "raised r = None"
    unfolding r by (rule store_source_hashes_returns[OF typed])
  have rec: "\<forall>e\<in>set listed. \<forall>f h.
            e ''fullyQualifiedName'' = Some f \<and> e ''sourceHash'' = Some (PyStr h) \<and> h \<noteq> [] \<longrightarrow>
              cache (final r) child_type (model_str f) = Some h"
    unfolding r using store_source_hashes_recorded[OF _ _ _ _ uniq typed] by blast
  have omit: "cache (final r) child_type (model_str f) = cache s child_type (model_str f)"
    if e: "e \<in> set listed" and f: "e ''fullyQualifiedName'' = Some f"
      and falsy: "e ''sourceHash'' = Some PyNone \<or> e ''sourceHash'' = Some (PyStr [])" for e f
  proof -
    have "\<forall>y\<in>set listed. \<forall>g h. y ''fullyQualifiedName'' = Some g \<and> y ''sourceHash'' = Some (PyStr h) \<and> h \<noteq> []
             \<longrightarrow> model_str g \<noteq> model_str f"
    proof (intro ballI allI impI)
      fix y g h
      assume y: "y \<in> set listed"
        and yh: "y ''fullyQualifiedName'' = Some g \<and> y ''sourceHash'' = Some (PyStr h) \<and> h \<noteq> []"
      then have "y \<noteq> e" using falsy by auto
      then have "map_option model_str (y ''fullyQualifiedName'') \<noteq> map_option model_str (e ''fullyQualifiedName'')"
        using uniq y e by (meson distinct_map inj_onD)
      then show "model_str g \<noteq> model_str f" using yh f by simp
    qed
    then have "cache (final (store_source_hashes child_type listed ?s0)) child_type (model_str f)
                 = cache ?s0 child_type (model_str f)"
      by (rule store_source_hashes_untouched)
    then show ?thesis by (simp add: r)
  qed
  show ?thesis
    using ok rec omit by (auto simp: check_cache_no_entry)
qed

text \<open>
  A listing with one table that has a fingerprint and one that has none.
\<close>

theorem listing_records_nonempty_fingerprints_witness:
  "raised (get_fqn_source_hash_dict listing_source (EntityClass ''DatabaseService'')
      (EntityClass ''Table'') ''svc'' empty_state) = None \<and>
   cache (final (get_fqn_source_hash_dict listing_source (EntityClass ''DatabaseService'')
      (EntityClass ''Table'') ''svc'' empty_state)) (EntityClass ''Table'') ''svc.orders'' = Some ''H0'' \<and>
   cache (final (get_fqn_source_hash_dict listing_source (EntityClass ''DatabaseService'')
      (EntityClass ''Table'') ''svc'' empty_state)) (EntityClass ''Table'') ''svc.legacy'' = None"
  using listing_records_nonempty_fingerprints[where src = listing_source and parent_type = "EntityClass ''DatabaseService''"
      and child_type = "EntityClass ''Table''" and entity_fqn = "''svc''" and s = empty_state]
  by (simp add: example_defs traversal_defs)

text \<open>
  The cache is an attribute of the class and is never emptied.  Here it holds the
  fingerprint \<^verbatim>\<open>H1\<close> for \<^verbatim>\<open>svc.legacy\<close> from an earlier listing; the listing now
  gives that table without a fingerprint, the entry stays, and the candidate
  \<^verbatim>\<open>legacy\<close> with the fingerprint \<^verbatim>\<open>H1\<close> is taken for unchanged from the cache alone:
  nothing is yielded and the remote store is not asked.
\<close>

theorem listing_keeps_stale_fingerprint:
  "last listed_tables ''fullyQualifiedName'' = Some (PyStr ''svc.legacy'') \<and>
   last listed_tables ''sourceHash'' = Some PyNone \<and>
   cache (final (get_fqn_source_hash_dict listing_source (EntityClass ''DatabaseService'')
      (EntityClass ''Table'') ''svc'' (cached_state [''svc.legacy'' \<mapsto> ''H1''])))
      (EntityClass ''Table'') ''svc.legacy'' = Some ''H1'' \<and>
   yielded (sink_request listing_source table_stage (Some legacy_either)
      (final (get_fqn_source_hash_dict listing_source (EntityClass ''DatabaseService'')
         (EntityClass ''Table'') ''svc'' (cached_state [''svc.legacy'' \<mapsto> ''H1''])))) = [] \<and>
   remote_calls (final (sink_request listing_source table_stage (Some legacy_either)
      (final (get_fqn_source_hash_dict listing_source (EntityClass ''DatabaseService'')
         (EntityClass ''Table'') ''svc'' (cached_state [''svc.legacy'' \<mapsto> ''H1''])))))
     = remote_calls (final (get_fqn_source_hash_dict listing_source (EntityClass ''DatabaseService'')
         (EntityClass ''Table'') ''svc'' (cached_state [''svc.legacy'' \<mapsto> ''H1''])))"
  by (simp add: get_fqn_source_hash_dict_def listing_params_def dispatcher_defs example_defs
      traversal_defs and_then_def returns_def)


section \<open>Claims on the stage processor\<close>














section \<open>Claims on the post-process hooks\<close>

lemma run_post_process_sel:
  "raised (run_post_process src p s) = None"
  "run_context (final (run_post_process src p s)) = run_context s"
  "cache (final (run_post_process src p s)) = cache s"
  "remote_calls (final (run_post_process src p s)) = remote_calls s"
  "yielded (run_post_process src p s) =
     (case post_processors src p of None \<Rightarrow> [] | Some hook \<Rightarrow> fst (hook (run_context s)))"
  by (simp_all add: run_post_process_def resumed_def split: option.splits prod.splits)

lemma run_post_processes_sel:
  "raised (run_post_processes src ps s) = None \<and>
   run_context (final (run_post_processes src ps s)) = run_context s \<and>
   cache (final (run_post_processes src ps s)) = cache s \<and>
   remote_calls (final (run_post_processes src ps s)) = remote_calls s \<and>
   yielded (run_post_processes src ps s) =
     concat (map (\<lambda>p. case post_processors src p of None \<Rightarrow> [] | Some hook \<Rightarrow> fst (hook (run_context s))) ps)"
  by (induction ps arbitrary: s)
     (simp_all add: and_then_sel run_post_process_sel cong: option.case_cong)

lemma and_then_opt_returns: "and_then_opt r (\<lambda>s. Some (returns s)) = Some r"
  by (cases "raised r") (simp_all add: and_then_opt_def)

lemma run_post_process_warnings:
  "warnings (final (run_post_process src p s)) =
     warnings s @ (if (case post_processors src p of
                         None \<Rightarrow> True
                       | Some hook \<Rightarrow> snd (hook (run_context s)) \<noteq> None)
                   then [PostProcessFailed p] else [])"
  by (simp add: run_post_process_def resumed_def split: option.splits prod.splits)

lemma run_post_processes_warnings:
  "warnings (final (run_post_processes src ps s)) =
     warnings s @ map PostProcessFailed
       (filter (\<lambda>p. case post_processors src p of
                       None \<Rightarrow> True
                     | Some hook \<Rightarrow> snd (hook (run_context s)) \<noteq> None) ps)"
  by (induction ps arbitrary: s)
     (simp_all add: and_then_sel run_post_process_sel run_post_process_warnings cong: option.case_cong)

text \<open>
  C8.  For a node that declares the hooks \<open>hooks\<close>, \<^verbatim>\<open>_run_node_post_process\<close> raises
  nothing; it yields the items of every declared hook in order, those of a hook that
  raises up to the exception, whatever the other hooks do; it logs one warning for every
  hook that raises or is no attribute of the source; and it leaves the Run Context as it
  was.  In \<^verbatim>\<open>process_nodes\<close> the hooks of a node run when the loop over the entities of
  its producer has ended without an exception, from the state that loop left.
\<close>

theorem post_process_hooks_isolated:
  assumes hooks: "post_process n = Some hooks"
  shows "raised (run_node_post_process src n s) = None \<and>
         yielded (run_node_post_process src n s) =
           concat (map (\<lambda>p. case post_processors src p of
                               None \<Rightarrow> []
                             | Some hook \<Rightarrow> fst (hook (run_context s))) hooks) \<and>
         warnings (final (run_node_post_process src n s)) =
           warnings s @ map PostProcessFailed
             (filter (\<lambda>p. case post_processors src p of
                             None \<Rightarrow> True
                           | Some hook \<Rightarrow> snd (hook (run_context s)) \<noteq> None) hooks) \<and>
         run_context (final (run_node_post_process src n s)) = run_context s \<and>
         (\<forall>node_producer child_nodes r.
            producers src (producer n) = Some node_producer \<and>
            get_child_nodes src n = Inr child_nodes \<and>
            process_node_entities depth src n child_nodes
              (case node_producer (run_context s) of None \<Rightarrow> [] | Some es \<Rightarrow> es) s = Some r \<and>
            raised r = None \<longrightarrow>
            process_nodes depth src [n] s = Some (and_then r (run_node_post_process src n)))"
proof -
  have nil: "process_nodes depth src [] = (\<lambda>s. Some (returns s))"
    by (rule ext) simp
  show ?thesis
    using hooks run_post_processes_sel[of src hooks s] run_post_processes_warnings[of src hooks s]
    by (auto simp: run_node_post_process_def nil and_then_opt_returns)
qed

theorem post_process_hooks_isolated_witness:
  "raised (run_node_post_process traversal_source schema_node empty_state) = None \<and>
   yielded (run_node_post_process traversal_source schema_node empty_state)
     = [name_request ''deleted'', name_request ''partial'', name_request ''lineage''] \<and>
   warnings (final (run_node_post_process traversal_source schema_node empty_state))
     = [PostProcessFailed ''failing_hook'', PostProcessFailed ''missing_hook'']"
  using post_process_hooks_isolated[where n = schema_node and src = traversal_source
      and s = empty_state and depth = 2
      and hooks = "[''mark_deleted'', ''failing_hook'', ''missing_hook'', ''yield_lineage'']"]
  by (simp add: example_defs traversal_defs)

section \<open>Claims on the Run Context\<close>

subsection \<open>What the dispatcher and the fingerprint store leave alone\<close>





















subsection \<open>Slots that are kept\<close>



























end
